theory Spec2Isabelle
  imports Complex_Main "HOL-Library.Multiset" "HOL-Library.Char_ord" "HOL-Library.List_Lexorder"
begin

section \<open>Python values shared by the service\<close>

text \<open>
  Exceptions are values: the class name and the message of the raised object.
  \<open>HTTPException\<close> carries the status code the endpoint answers with.
  Python floats are modelled by exact rationals; a \<open>NaN\<close> (the mean of an empty
  pandas Series) is \<open>None\<close>.
\<close>

datatype exn = Exn string string | HTTPException nat string

definition ValueError :: "string \<Rightarrow> exn" where
  "ValueError msg = Exn ''ValueError'' msg"


definition IndexError :: "string \<Rightarrow> exn" where
  "IndexError msg = Exn ''IndexError'' msg"

fun exn_class :: "exn \<Rightarrow> string" where
  "exn_class (Exn c m) = c"
| "exn_class (HTTPException code m) = ''HTTPException''"

subsection \<open>Number formatting\<close>

definition digit_char :: "nat \<Rightarrow> char" where
  "digit_char d = ''0123456789'' ! d"

function show_nat :: "nat \<Rightarrow> string" where
  "show_nat n = (if n < 10 then [digit_char n] else show_nat (n div 10) @ [digit_char (n mod 10)])"
  by pat_completeness auto
termination
  by (relation "measure (\<lambda>n. n)") auto

declare show_nat.simps [simp del]

definition show_int :: "int \<Rightarrow> string" where
  "show_int i = (if i < 0 then ''-'' @ show_nat (nat (- i)) else show_nat (nat i))"

text \<open>\<open>int(x)\<close> on a float truncates towards zero.\<close>

definition py_int :: "rat \<Rightarrow> int" where
  "py_int x = (if 0 \<le> x then \<lfloor>x\<rfloor> else - \<lfloor>- x\<rfloor>)"

text \<open>Rounding to the nearest integer, ties to even, as \<open>round\<close> and \<open>format\<close> do.\<close>

definition round_half_even :: "rat \<Rightarrow> int" where
  "round_half_even q =
     (let f = \<lfloor>q\<rfloor>; r = q - of_int f
      in if r < 1 / 2 then f else if 1 / 2 < r then f + 1 else if even f then f else f + 1)"

text \<open>The format \<open>{x:+.1f}\<close>: a sign, the integer part, one decimal; \<open>nan\<close> for a NaN.\<close>

definition fmt_plus_1f :: "rat option \<Rightarrow> string" where
  "fmt_plus_1f v =
     (case v of
        None \<Rightarrow> ''+nan''
      | Some x \<Rightarrow>
          (let t = nat (round_half_even (\<bar>x\<bar> * 10))
           in (if x < 0 then ''-'' else ''+'') @ show_nat (t div 10) @ ''.'' @ show_nat (t mod 10)))"

subsection \<open>Calendar dates\<close>

text \<open>
  A calendar day is its number of days since 1970-01-01. \<open>civil_from_days\<close> gives
  the proleptic Gregorian year, month and day of the month; \<open>strftime_b_d\<close> is
  \<open>strftime('%b %d')\<close> in the C locale.
\<close>

definition civil_from_days :: "int \<Rightarrow> int \<times> nat \<times> nat" where
  "civil_from_days z0 =
     (let z = z0 + 719468;
          era = z div 146097;
          doe = z - era * 146097;
          yoe = (doe - doe div 1460 + doe div 36524 - doe div 146096) div 365;
          doy = doe - (365 * yoe + yoe div 4 - yoe div 100);
          mp = (5 * doy + 2) div 153;
          d = doy - (153 * mp + 2) div 5 + 1;
          m = (if mp < 10 then mp + 3 else mp - 9);
          y = yoe + era * 400 + (if m \<le> 2 then 1 else 0)
      in (y, nat m, nat d))"

definition month_of :: "int \<Rightarrow> nat" where
  "month_of d = fst (snd (civil_from_days d))"

definition dayofweek :: "int \<Rightarrow> nat" where
  "dayofweek d = nat ((d + 3) mod 7)"

definition month_abbr :: "nat \<Rightarrow> string" where
  "month_abbr m =
     [''Jan'', ''Feb'', ''Mar'', ''Apr'', ''May'', ''Jun'',
      ''Jul'', ''Aug'', ''Sep'', ''Oct'', ''Nov'', ''Dec''] ! (m - 1)"

definition strftime_b_d :: "int \<Rightarrow> string" where
  "strftime_b_d day =
     (case civil_from_days day of
        (y, m, d) \<Rightarrow> month_abbr m @ '' '' @ (if d < 10 then ''0'' else '''') @ show_nat d)"


section \<open>The forecaster (models/arima\_model.py)\<close>

text \<open>
  A pandas Series indexed by calendar days: the index labels, the values and the
  frequency of the index (\<open>None\<close> when it is not set).
\<close>

record series =
  s_index :: "int list"
  s_values :: "rat list"
  s_freq :: "string option"

type_synonym arima_order = "nat \<times> nat \<times> nat"

text \<open>One row of the frame statsmodels' \<open>summary_frame()\<close> returns, with its index label.\<close>

record summary_row =
  sf_index :: int
  sf_mean :: rat
  sf_mean_se :: rat
  sf_mean_ci_lower :: rat
  sf_mean_ci_upper :: rat

text \<open>One row of the frame \<open>ArimaModel.forecast\<close> returns.\<close>

record forecast_row =
  fc_index :: int
  fc_mean :: rat
  fc_lower :: rat
  fc_upper :: rat

text \<open>
  The fitted results object: \<open>get_forecast(steps).summary_frame()\<close> and the \<open>aic\<close>.
  It belongs to statsmodels and is a parameter of the model.
\<close>

record fitted =
  get_forecast :: "int \<Rightarrow> exn + summary_row list"
  aic :: rat

record arima_obj =
  endog :: series
  arima_order :: arima_order

text \<open>
  The library calls \<open>train\<close> makes: pandas' \<open>asfreq('D').fillna(0)\<close>, the constructor
  \<open>ARIMA(series, order=...)\<close> and \<open>fit()\<close>. Each may raise.
\<close>

record arima_lib =
  asfreq_D_fillna0 :: "series \<Rightarrow> exn + series"
  ARIMA :: "series \<Rightarrow> arima_order \<Rightarrow> exn + arima_obj"
  fit :: "arima_obj \<Rightarrow> exn + fitted"

record ArimaModel =
  am_order :: arima_order
  am_model :: "arima_obj option"
  am_model_fit :: "fitted option"

definition ArimaModel_init :: "arima_order \<Rightarrow> ArimaModel" where
  "ArimaModel_init ord = \<lparr>am_order = ord, am_model = None, am_model_fit = None\<rparr>"

text \<open>
  The result of \<open>train\<close>: the returned flag, the object after the call and the orders
  handed to the \<open>ARIMA\<close> constructor, in the order of the calls.
\<close>

record train_result =
  tr_ok :: bool
  tr_self :: ArimaModel
  tr_attempts :: "arima_order list"

text \<open>The \<open>except\<close> branch of the inner \<open>try\<close>: the fallback order (1,1,0).\<close>

definition train_fallback :: "arima_lib \<Rightarrow> ArimaModel \<Rightarrow> series \<Rightarrow> train_result" where
  "train_fallback lib self ser =
     (case ARIMA lib ser (1, 1, 0) of
        Inl e \<Rightarrow>
          \<lparr>tr_ok = False, tr_self = self\<lparr>am_model_fit := None\<rparr>,
           tr_attempts = [am_order self, (1, 1, 0)]\<rparr>
      | Inr m \<Rightarrow>
          (case fit lib m of
             Inl e \<Rightarrow>
               \<lparr>tr_ok = False, tr_self = self\<lparr>am_model := Some m, am_model_fit := None\<rparr>,
                tr_attempts = [am_order self, (1, 1, 0)]\<rparr>
           | Inr f \<Rightarrow>
               \<lparr>tr_ok = True, tr_self = self\<lparr>am_model := Some m, am_model_fit := Some f\<rparr>,
                tr_attempts = [am_order self, (1, 1, 0)]\<rparr>))"

definition train :: "arima_lib \<Rightarrow> ArimaModel \<Rightarrow> series \<Rightarrow> exn + train_result" where
  "train lib self series0 =
     (case (if s_freq series0 = None then asfreq_D_fillna0 lib series0 else Inr series0) of
        Inl e \<Rightarrow> Inl e
      | Inr ser \<Rightarrow>
          Inr (case ARIMA lib ser (am_order self) of
                 Inl e \<Rightarrow> train_fallback lib self ser
               | Inr m \<Rightarrow>
                   (case fit lib m of
                      Inl e \<Rightarrow> train_fallback lib (self\<lparr>am_model := Some m\<rparr>) ser
                    | Inr f \<Rightarrow>
                        \<lparr>tr_ok = True,
                         tr_self = self\<lparr>am_model := Some m, am_model_fit := Some f\<rparr>,
                         tr_attempts = [am_order self]\<rparr>)))"

definition forecast :: "ArimaModel \<Rightarrow> int \<Rightarrow> exn + forecast_row list" where
  "forecast self steps =
     (case am_model_fit self of
        None \<Rightarrow> Inl (ValueError ''Model not trained yet.'')
      | Some f \<Rightarrow>
          (case get_forecast f steps of
             Inl e \<Rightarrow> Inl e
           | Inr summary_frame \<Rightarrow>
               Inr (map (\<lambda>r. \<lparr>fc_index = sf_index r, fc_mean = sf_mean r,
                                fc_lower = sf_mean_ci_lower r, fc_upper = sf_mean_ci_upper r\<rparr>)
                        summary_frame)))"

subsection \<open>generate\_insight\<close>

text \<open>\<open>Series.mean()\<close>: NaN on an empty Series.\<close>

definition mean_py :: "rat list \<Rightarrow> rat option" where
  "mean_py xs = (if xs = [] then None else Some (sum_list xs / of_nat (length xs)))"

text \<open>\<open>history[-30:]\<close>: the last 30 values.\<close>

definition last_n :: "nat \<Rightarrow> 'a list \<Rightarrow> 'a list" where
  "last_n n xs = drop (length xs - n) xs"

text \<open>
  \<open>idxmax()\<close> and \<open>max()\<close> of the column \<open>mean\<close>: the first row that attains the
  maximum; an empty column raises.
\<close>

fun first_max_row :: "forecast_row \<Rightarrow> forecast_row list \<Rightarrow> forecast_row" where
  "first_max_row best [] = best"
| "first_max_row best (r # rs) =
     (if fc_mean best < fc_mean r then first_max_row r rs else first_max_row best rs)"

definition idxmax_row :: "forecast_row list \<Rightarrow> exn + forecast_row" where
  "idxmax_row fc =
     (case fc of
        [] \<Rightarrow> Inl (ValueError ''attempt to get argmax of an empty sequence'')
      | r # rs \<Rightarrow> Inr (first_max_row r rs))"

text \<open>
  The comparisons of lines 65 to 75 on a float that may be NaN: every comparison with
  NaN is false.
\<close>

definition current_avg_of :: "rat list \<Rightarrow> rat option" where
  "current_avg_of history =
     (let avg = (if 30 \<le> length history then mean_py (last_n 30 history) else mean_py history)
      in if avg = Some 0 then Some 1 else avg)"

definition change_pct_of :: "rat option \<Rightarrow> rat option \<Rightarrow> rat option" where
  "change_pct_of current_avg future_avg =
     (case (current_avg, future_avg) of
        (Some c, Some f) \<Rightarrow> Some (((f - c) / c) * 100)
      | _ \<Rightarrow> None)"

definition trend_of :: "rat option \<Rightarrow> string" where
  "trend_of change_pct =
     (case change_pct of
        None \<Rightarrow> ''stable''
      | Some c \<Rightarrow> if 5 < c then ''increasing'' else if c < - 5 then ''decreasing'' else ''stable'')"

definition magnitude_of :: "rat option \<Rightarrow> string" where
  "magnitude_of change_pct =
     (case change_pct of
        None \<Rightarrow> ''slightly''
      | Some c \<Rightarrow>
          if 20 < \<bar>c\<bar> then ''significantly''
          else if 50 < \<bar>c\<bar> then ''drastically''
          else ''slightly'')"

definition generate_insight :: "series \<Rightarrow> forecast_row list \<Rightarrow> string \<Rightarrow> exn + string" where
  "generate_insight history fc metric_name =
     (let current_avg = current_avg_of (s_values history);
          future_avg = mean_py (map fc_mean fc);
          change_pct = change_pct_of current_avg future_avg;
          trend = trend_of change_pct;
          magnitude = magnitude_of change_pct
      in case idxmax_row fc of
           Inl e \<Rightarrow> Inl e
         | Inr peak \<Rightarrow>
             (let peak_idx = fc_index peak;
                  peak_val = fc_mean peak;
                  peak_date_str = strftime_b_d peak_idx;
                  insight = metric_name @ '' is projected to '' @ trend @ '' '' @ magnitude
                    @ '' ('' @ fmt_plus_1f change_pct @ ''%) over the next ''
                    @ show_nat (length fc) @ '' days. ''
              in if trend = ''increasing'' then
                   Inr (insight @ ''Prepare for a peak of '' @ show_int (py_int peak_val)
                        @ '' units around '' @ peak_date_str @ ''. ''
                        @ ''Consider increasing buffer stock in regional warehouses.'')
                 else if trend = ''decreasing'' then
                   Inr (insight @ ''Expect lower activity levels, bottoming out around ''
                        @ strftime_b_d peak_idx @ ''. ''
                        @ ''Opportunity to schedule vehicle maintenance or reduce labor shifts.'')
                 else
                   (case future_avg of
                      None \<Rightarrow> Inl (ValueError ''cannot convert float NaN to integer'')
                    | Some fa \<Rightarrow>
                        Inr (insight
                             @ ''Operations are expected to remain steady with an average of ''
                             @ show_int (py_int fa) @ '' units. ''
                             @ ''Maintain current inventory levels.''))))"

subsection \<open>Reference notions for the forecaster's properties\<close>

text \<open>One fitting attempt of \<open>train\<close>: the constructor, then \<open>fit()\<close>.\<close>

definition fit_with :: "arima_lib \<Rightarrow> series \<Rightarrow> arima_order \<Rightarrow> exn + fitted" where
  "fit_with lib ser ord = (case ARIMA lib ser ord of Inl e \<Rightarrow> Inl e | Inr m \<Rightarrow> fit lib m)"

text \<open>The series \<open>train\<close> fits, after lines 18 and 19, which are outside its \<open>try\<close>.\<close>

definition prepared :: "arima_lib \<Rightarrow> series \<Rightarrow> exn + series" where
  "prepared lib series0 =
     (if s_freq series0 = None then asfreq_D_fillna0 lib series0 else Inr series0)"

text \<open>
  The trough of a forecast, in the specification's words: the first row at which the
  forecast mean attains its minimum.
\<close>

fun spec_trough_row :: "forecast_row \<Rightarrow> forecast_row list \<Rightarrow> forecast_row" where
  "spec_trough_row best [] = best"
| "spec_trough_row best (r # rs) =
     (if fc_mean r < fc_mean best then spec_trough_row r rs else spec_trough_row best rs)"

section \<open>The reliability scorer (models/rf\_model.py)\<close>

text \<open>
  The trained scikit-learn classifier is a parameter: \<open>predict_proba\<close> takes the rows
  of a feature matrix and returns one row of class probabilities for each, or raises
  (as it does when the arity of a row is not the one it was fitted with).
\<close>

record SupplierReliabilityModel =
  rf_model :: "rat list list \<Rightarrow> exn + rat list list"
  feature_names :: "string list"


text \<open>\<open>predict_proba\<close> of the wrapper: column 1 of the class probabilities.\<close>

definition predict_proba :: "SupplierReliabilityModel \<Rightarrow> rat list list \<Rightarrow> exn + rat list" where
  "predict_proba self X =
     (case rf_model self X of
        Inl e \<Rightarrow> Inl e
      | Inr probs \<Rightarrow>
          if list_all (\<lambda>row. 1 < length row) probs then Inr (map (\<lambda>row. row ! 1) probs)
          else Inl (IndexError ''index 1 is out of bounds for axis 1 with size 1''))"



section \<open>The dashboard endpoint (main.py, dashboard\_reliability)\<close>



text \<open>The entry of the response for one route: exactly these three keys.\<close>

record reliability_entry =
  route :: string
  score :: rat
  insight :: string







section \<open>Delivery records and history augmentation (data/synthetic.py)\<close>

text \<open>
  A row of the deliveries frame. \<open>deliveryDate\<close> is a timestamp, in seconds since
  1970-01-01 00:00; a day has 86400 of them.
\<close>

record delivery =
  d_id :: string
  originId :: string
  destinationId :: string
  vehicleId :: string
  demand :: int
  distance :: rat
  totalCost :: rat
  deliveryDate :: int
  isAlpine :: bool
  hasOvertime :: bool
  vehicleType :: string
  originCategory :: string
  destinationCategory :: string

definition day_seconds :: int where
  "day_seconds = 86400"

text \<open>\<open>.dt.date\<close>: the calendar day of a timestamp.\<close>

definition date_of :: "int \<Rightarrow> int" where
  "date_of ts = ts div day_seconds"

text \<open>\<open>(a - b).days\<close>: the whole days of a difference of timestamps.\<close>

definition timedelta_days :: "int \<Rightarrow> int \<Rightarrow> int" where
  "timedelta_days a b = (a - b) div day_seconds"

text \<open>\<open>unique()\<close>: the distinct values in the order of their first appearance.\<close>

definition unique :: "'a list \<Rightarrow> 'a list" where
  "unique xs = rev (remdups (rev xs))"

text \<open>
  The random sources (numpy's and pandas' global generator, the module \<open>random\<close>) as
  an explicit generator state \<open>'g\<close>: a normal draw with a mean and a standard
  deviation, the position drawn among \<open>n\<close> entries, and a uniform draw from [0, 1).
  A position is taken modulo the number of entries.
\<close>

record 'g rng =
  rng_normal :: "rat \<Rightarrow> rat \<Rightarrow> 'g \<Rightarrow> rat \<times> 'g"
  rng_choice :: "nat \<Rightarrow> 'g \<Rightarrow> nat \<times> 'g"
  rng_random :: "'g \<Rightarrow> rat \<times> 'g"

definition np_choice :: "'g rng \<Rightarrow> 'a list \<Rightarrow> 'g \<Rightarrow> 'a \<times> 'g" where
  "np_choice R xs g = (case rng_choice R (length xs) g of (k, g') \<Rightarrow> (xs ! (k mod length xs), g'))"

text \<open>The body of the inner loop, lines 53 to 82: one synthetic delivery.\<close>

definition synth_row ::
  "'g rng \<Rightarrow> delivery list \<Rightarrow> string list \<Rightarrow> string list \<Rightarrow> string list
     \<Rightarrow> nat \<Rightarrow> nat \<Rightarrow> int \<Rightarrow> 'g \<Rightarrow> delivery \<times> 'g" where
  "synth_row R df vehicle_ids origin_ids dest_ids i j current_synth_date g0 =
     (case np_choice R vehicle_ids g0 of (vid, g1) \<Rightarrow>
      case np_choice R origin_ids g1 of (oid, g2) \<Rightarrow>
      case np_choice R dest_ids g2 of (did, g3) \<Rightarrow>
      case np_choice R (filter (\<lambda>r. vehicleId r = vid) df) g3 of (template, g4) \<Rightarrow>
      case rng_normal R 1 (1 / 10) g4 of (noise, g5) \<Rightarrow>
      case rng_random R g5 of (u, g6) \<Rightarrow>
        (\<lparr>d_id = ''synth_'' @ show_nat i @ ''_'' @ show_nat j,
          originId = oid,
          destinationId = did,
          vehicleId = vid,
          demand = py_int (of_int (demand template) * noise),
          distance = distance template,
          totalCost = totalCost template * noise,
          deliveryDate = current_synth_date,
          isAlpine = isAlpine template,
          hasOvertime = (u < 1 / 10),
          vehicleType = vehicleType template,
          originCategory = originCategory template,
          destinationCategory = destinationCategory template\<rparr>, g6))"

text \<open>\<open>for _ in range(n_deliveries)\<close>: \<open>k\<close> rounds are left, \<open>j\<close> is the loop variable.\<close>

fun day_rows ::
  "'g rng \<Rightarrow> delivery list \<Rightarrow> string list \<Rightarrow> string list \<Rightarrow> string list
     \<Rightarrow> nat \<Rightarrow> int \<Rightarrow> nat \<Rightarrow> nat \<Rightarrow> 'g \<Rightarrow> delivery list \<times> 'g" where
  "day_rows R df vs os ds i date 0 j g = ([], g)"
| "day_rows R df vs os ds i date (Suc k) j g =
     (case synth_row R df vs os ds i j date g of (row, g1) \<Rightarrow>
      case day_rows R df vs os ds i date k (Suc j) g1 of (rows, g2) \<Rightarrow>
        (row # rows, g2))"

text \<open>
  \<open>for i in range(days_needed)\<close>: \<open>k\<close> days are left, \<open>i\<close> is the loop variable,
  \<open>date\<close> is \<open>current_synth_date\<close> on entry.
\<close>

fun synth_days ::
  "'g rng \<Rightarrow> delivery list \<Rightarrow> string list \<Rightarrow> string list \<Rightarrow> string list \<Rightarrow> rat
     \<Rightarrow> nat \<Rightarrow> nat \<Rightarrow> int \<Rightarrow> 'g \<Rightarrow> delivery list \<times> 'g" where
  "synth_days R df vs os ds daily_vol 0 i date g = ([], g)"
| "synth_days R df vs os ds daily_vol (Suc k) i date g =
     (let current_synth_date = date - day_seconds
      in case rng_normal R daily_vol (daily_vol * (2 / 10)) g of (x, g1) \<Rightarrow>
         case day_rows R df vs os ds i current_synth_date (nat (max 1 (py_int x))) 0 g1
           of (rows, g2) \<Rightarrow>
         case synth_days R df vs os ds daily_vol k (Suc i) current_synth_date g2
           of (rest, g3) \<Rightarrow>
           (rows @ rest, g3))"

text \<open>
  \<open>generate_historical_data\<close>. The result is the frame and the generator state after
  the draws. \<open>sort_values\<close> is modelled by a stable sort; pandas does not fix the order
  of rows with equal dates.
\<close>

definition generate_historical_data ::
  "'g rng \<Rightarrow> delivery list \<Rightarrow> int \<Rightarrow> 'g \<Rightarrow> delivery list \<times> 'g" where
  "generate_historical_data R original_df target_days g =
     (if original_df = [] then ([], g)
      else
        let df = original_df;
            earliest_date = Min (set (map deliveryDate df));
            latest_date = Max (set (map deliveryDate df));
            current_span = timedelta_days latest_date earliest_date;
            days_needed = target_days - current_span
        in if days_needed \<le> 0 then (df, g)
           else
             let daily_vol = of_nat (length df)
                   / of_nat (length (remdups (map (\<lambda>r. date_of (deliveryDate r)) df)));
                 vehicle_ids = unique (map vehicleId df);
                 origin_ids = unique (map originId df);
                 dest_ids = unique (map destinationId df)
             in case synth_days R df vehicle_ids origin_ids dest_ids daily_vol
                       (nat days_needed) 0 earliest_date g of
                  (new_rows, g') \<Rightarrow> (sort_key deliveryDate (new_rows @ df), g'))"

text \<open>The span of a record collection, in the specification's words.\<close>

definition span_days :: "delivery list \<Rightarrow> int" where
  "span_days records =
     timedelta_days (Max (set (map deliveryDate records))) (Min (set (map deliveryDate records)))"

section \<open>Aggregation (data/preprocessor.py)\<close>

text \<open>
  \<open>prepare_arima_data\<close>: the sum of a column for each calendar day, reindexed over
  every day from the first to the last with 0 for the days without a record. The
  column is given by its accessor.
\<close>

definition prepare_arima_data :: "delivery list \<Rightarrow> (delivery \<Rightarrow> rat) \<Rightarrow> series" where
  "prepare_arima_data df column =
     (if df = [] then \<lparr>s_index = [], s_values = [], s_freq = Some ''D''\<rparr>
      else
        let days = map (\<lambda>r. date_of (deliveryDate r)) df;
            idx = [Min (set days) .. Max (set days)]
        in \<lparr>s_index = idx,
            s_values = map (\<lambda>d. sum_list (map column (filter (\<lambda>r. date_of (deliveryDate r) = d) df))) idx,
            s_freq = Some ''D''\<rparr>)"

text \<open>
  \<open>astype('category').cat.codes\<close>: the position of a value among the sorted distinct
  values of its column.
\<close>

fun index_of :: "'a list \<Rightarrow> 'a \<Rightarrow> nat" where
  "index_of [] x = 0"
| "index_of (y # ys) x = (if x = y then 0 else Suc (index_of ys x))"

definition cat_codes :: "string list \<Rightarrow> nat list" where
  "cat_codes xs = (let categories = sort (remdups xs) in map (index_of categories) xs)"

definition feature_columns :: "string list" where
  "feature_columns =
     [''vehicle_encoded'', ''origin_encoded'', ''distance'', ''demand'',
      ''is_alpine_int'', ''day_of_week'', ''month'']"

text \<open>
  \<open>prepare_rf_data\<close>: the feature rows \<open>X\<close>, the labels \<open>y\<close> and the identifiers
  (id, vehicleId, originId).
\<close>

definition prepare_rf_data ::
  "delivery list \<Rightarrow> rat list list \<times> nat list \<times> (string \<times> string \<times> string) list" where
  "prepare_rf_data df =
     (let target = map (\<lambda>r. if hasOvertime r then 0 else 1) df;
          vehicle_encoded = cat_codes (map vehicleId df);
          origin_encoded = cat_codes (map originId df);
          X = map (\<lambda>(r, v, oc).
                [of_nat v, of_nat oc, distance r, of_int (demand r),
                 (if isAlpine r then 1 else 0),
                 of_nat (dayofweek (date_of (deliveryDate r))),
                 of_nat (month_of (date_of (deliveryDate r)))])
              (zip df (zip vehicle_encoded origin_encoded))
      in (X, target, map (\<lambda>r. (d_id r, vehicleId r, originId r)) df))"

text \<open>
  \<open>SupplierReliabilityModel.train\<close>: the split, the fit and the scoring belong to
  scikit-learn and are one parameter, which gives the fitted classifier and the
  accuracy or raises. The result is the accuracy and the object after the call.
\<close>

type_synonym rf_lib =
  "rat list list \<Rightarrow> nat list \<Rightarrow> exn + ((rat list list \<Rightarrow> exn + rat list list) \<times> rat)"

definition SupplierReliabilityModel_init :: SupplierReliabilityModel where
  "SupplierReliabilityModel_init =
     \<lparr>rf_model = (\<lambda>X. Inl (Exn ''NotFittedError''
        ''This RandomForestClassifier instance is not fitted yet.'')),
      feature_names = []\<rparr>"

definition rf_train ::
  "rf_lib \<Rightarrow> SupplierReliabilityModel \<Rightarrow> string list \<Rightarrow> rat list list \<Rightarrow> nat list
     \<Rightarrow> exn + (rat \<times> SupplierReliabilityModel)" where
  "rf_train lib self columns X y =
     (case lib X y of
        Inl e \<Rightarrow> Inl e
      | Inr (clf, accuracy) \<Rightarrow>
          Inr (accuracy, self\<lparr>rf_model := clf, feature_names := columns\<rparr>))"

section \<open>The service (main.py)\<close>

text \<open>
  The registry \<open>models\<close> is a dictionary; its values are \<open>None\<close>, a forecaster, the
  reliability model, or (under the keys \<open>demand_history\<close> and \<open>spend_history\<close>) a
  pandas Series. A Python dictionary keeps its keys in the order of insertion.
\<close>

datatype reg_value =
  VNone
  | VArima ArimaModel
  | VReliability SupplierReliabilityModel
  | VSeries series

type_synonym registry = "(string \<times> reg_value) list"

fun dict_set :: "string \<Rightarrow> reg_value \<Rightarrow> registry \<Rightarrow> registry" where
  "dict_set k v [] = [(k, v)]"
| "dict_set k v ((k', v') # rest) =
     (if k = k' then (k, v) # rest else (k', v') # dict_set k v rest)"

fun dict_get :: "registry \<Rightarrow> string \<Rightarrow> reg_value option" where
  "dict_get [] k = None"
| "dict_get ((k', v') # rest) k = (if k = k' then Some v' else dict_get rest k)"

record app_state =
  models :: registry
  latest_date :: "int option"
  rf_accuracy :: rat
  total_records :: nat

definition initial_state :: app_state where
  "initial_state =
     \<lparr>models = [(''demand'', VNone), (''spend'', VNone), (''reliability'', VNone)],
      latest_date = None, rf_accuracy = 0, total_records = 0\<rparr>"

text \<open>
  What the startup uses from outside: the outcome of \<open>DBFetcher().fetch_deliveries()\<close>,
  the random generator, statsmodels and scikit-learn.
\<close>

record 'g env =
  env_fetch :: "exn + delivery list"
  env_rng :: "'g rng"
  env_seed :: 'g
  env_arima :: arima_lib
  env_rf :: rf_lib

text \<open>Steps 3 and 4 of \<open>lifespan\<close>: one forecaster, with its own \<open>try\<close>.\<close>

definition train_forecaster ::
  "arima_lib \<Rightarrow> delivery list \<Rightarrow> (delivery \<Rightarrow> rat) \<Rightarrow> string \<Rightarrow> string
     \<Rightarrow> app_state \<Rightarrow> app_state" where
  "train_forecaster lib full_df column key history_key st =
     (let ser = prepare_arima_data full_df column
      in case train lib (ArimaModel_init (5, 1, 0)) ser of
           Inl e \<Rightarrow> st
         | Inr r \<Rightarrow>
             if tr_ok r then
               st\<lparr>models := dict_set history_key (VSeries ser)
                                (dict_set key (VArima (tr_self r)) (models st))\<rparr>
             else st)"

text \<open>Step 5: the reliability model, with its own \<open>try\<close>.\<close>

definition train_reliability :: "rf_lib \<Rightarrow> delivery list \<Rightarrow> app_state \<Rightarrow> app_state" where
  "train_reliability lib full_df st =
     (case prepare_rf_data full_df of
        (X, y, identifiers) \<Rightarrow>
          (case rf_train lib SupplierReliabilityModel_init feature_columns X y of
             Inl e \<Rightarrow> st
           | Inr (accuracy, rf) \<Rightarrow>
               st\<lparr>models := dict_set ''reliability'' (VReliability rf) (models st),
                   rf_accuracy := accuracy\<rparr>))"

text \<open>
  \<open>lifespan\<close> up to its \<open>yield\<close>: the state the endpoints run in. An empty result of
  the fetch makes the augmentation return a frame without columns, and
  \<open>full_df['deliveryDate']\<close> raises into the outer \<open>except\<close>.
\<close>

definition lifespan :: "'g env \<Rightarrow> app_state" where
  "lifespan env =
     (case env_fetch env of
        Inl e \<Rightarrow> initial_state
      | Inr df \<Rightarrow>
          (let full_df = fst (generate_historical_data (env_rng env) df 365 (env_seed env));
               st1 = initial_state\<lparr>total_records := length full_df\<rparr>
           in if full_df = [] then st1
              else
                let st2 = st1\<lparr>latest_date := Some (Max (set (map deliveryDate full_df)))\<rparr>;
                    st3 = train_forecaster (env_arima env) full_df (\<lambda>r. of_int (demand r))
                            ''demand'' ''demand_history'' st2;
                    st4 = train_forecaster (env_arima env) full_df totalCost
                            ''spend'' ''spend_history'' st3
                in train_reliability (env_rf env) full_df st4))"

text \<open>
  \<open>bool(v)\<close> of a registry value: \<open>None\<close> is false, an instance of one of the model
  classes is true, and the truth value of a pandas Series raises.
\<close>

fun truthy :: "reg_value \<Rightarrow> exn + bool" where
  "truthy VNone = Inr False"
| "truthy (VArima m) = Inr True"
| "truthy (VReliability m) = Inr True"
| "truthy (VSeries s) = Inl (ValueError ''The truth value of a Series is ambiguous. Use a.empty, a.bool(), a.item(), a.any() or a.all().'')"

text \<open>\<open>all(...)\<close> stops at the first false value.\<close>

fun py_all :: "reg_value list \<Rightarrow> exn + bool" where
  "py_all [] = Inr True"
| "py_all (v # vs) =
     (case truthy v of
        Inl e \<Rightarrow> Inl e
      | Inr b \<Rightarrow> if b then py_all vs else Inr False)"

fun is_not_None :: "reg_value \<Rightarrow> bool" where
  "is_not_None VNone = False"
| "is_not_None (VArima m) = True"
| "is_not_None (VReliability m) = True"
| "is_not_None (VSeries s) = True"

record health =
  h_status :: string
  h_models_loaded :: bool
  h_details :: "(string \<times> bool) list"

definition health_check :: "app_state \<Rightarrow> exn + health" where
  "health_check st =
     (case py_all (map snd (models st)) of
        Inl e \<Rightarrow> Inl e
      | Inr loaded \<Rightarrow>
          Inr \<lparr>h_status = ''ok'', h_models_loaded = loaded,
               h_details = map (\<lambda>(k, v). (k, is_not_None v)) (models st)\<rparr>)"

text \<open>Whether the registry holds a value other than \<open>None\<close> under a key.\<close>

definition trained :: "app_state \<Rightarrow> string \<Rightarrow> bool" where
  "trained st k = (case dict_get (models st) k of Some v \<Rightarrow> is_not_None v | None \<Rightarrow> False)"

subsection \<open>Sample inputs\<close>

text \<open>
  Two deliveries, one on day 10 and one on day 11 at 00:08:20, and a deterministic
  generator (a counter) to run the augmentation on.
\<close>

definition sample_delivery_a :: delivery where
  "sample_delivery_a =
     \<lparr>d_id = ''a1'', originId = ''o1'', destinationId = ''p1'', vehicleId = ''v1'',
      demand = 10, distance = 12, totalCost = 100, deliveryDate = 864000,
      isAlpine = False, hasOvertime = False, vehicleType = ''van'',
      originCategory = ''hub'', destinationCategory = ''shop''\<rparr>"

definition sample_delivery_b :: delivery where
  "sample_delivery_b =
     \<lparr>d_id = ''a2'', originId = ''o2'', destinationId = ''p1'', vehicleId = ''v2'',
      demand = 20, distance = 30, totalCost = 250, deliveryDate = 950900,
      isAlpine = True, hasOvertime = True, vehicleType = ''truck'',
      originCategory = ''hub'', destinationCategory = ''shop''\<rparr>"

definition sample_rng :: "nat rng" where
  "sample_rng =
     \<lparr>rng_normal = (\<lambda>m s g. (m + s * (of_nat (g mod 3) - 1), g + 1)),
      rng_choice = (\<lambda>n g. (g, g + 1)),
      rng_random = (\<lambda>g. (of_nat (g mod 10) / 10, g + 1))\<rparr>"

text \<open>
  Libraries whose calls all succeed: a fit that forecasts a constant 5 for the days
  after day 11, and a classifier that answers 0.9 for class 1.
\<close>

definition sample_arima_lib :: arima_lib where
  "sample_arima_lib =
     \<lparr>asfreq_D_fillna0 = Inr,
      ARIMA = (\<lambda>s ord. Inr \<lparr>endog = s, arima_order = ord\<rparr>),
      fit = (\<lambda>m. Inr \<lparr>get_forecast = (\<lambda>steps. Inr (map (\<lambda>i.
                \<lparr>sf_index = 12 + int i, sf_mean = 5, sf_mean_se = 1,
                 sf_mean_ci_lower = 3, sf_mean_ci_upper = 7\<rparr>) [0..<nat steps])),
              aic = 100\<rparr>)\<rparr>"

definition sample_rf_lib :: rf_lib where
  "sample_rf_lib = (\<lambda>X y. Inr (\<lambda>rows. Inr (map (\<lambda>row. [1 / 10, 9 / 10]) rows), 9 / 10))"

definition sample_env :: "nat env" where
  "sample_env =
     \<lparr>env_fetch = Inr [sample_delivery_a, sample_delivery_b],
      env_rng = sample_rng, env_seed = 0,
      env_arima = sample_arima_lib, env_rf = sample_rf_lib\<rparr>"

section \<open>Properties of the forecaster\<close>

lemma magnitude_never_drastically: "magnitude_of c \<noteq> ''drastically''"
  by (simp add: magnitude_of_def split: option.splits)

lemma magnitude_of_Some:
  "magnitude_of (Some c) = (if 20 < \<bar>c\<bar> then ''significantly'' else ''slightly'')"
  by (simp add: magnitude_of_def)

text \<open>
  C1. The magnitude qualifier should be \<open>drastically\<close> when the absolute change exceeds
  50 per cent. With a history averaging 100 and a forecast averaging 200 the change is
  +100 per cent, and \<open>generate_insight\<close> says \<open>significantly\<close>: the test for 20 comes
  first, so the branch for 50 is never taken.
\<close>

theorem generate_insight_magnitude_above_50:
  "generate_insight \<lparr>s_index = [0], s_values = [100], s_freq = Some ''D''\<rparr>
     [\<lparr>fc_index = 1, fc_mean = 200, fc_lower = 150, fc_upper = 250\<rparr>] ''Demand''
   = Inr (''Demand is projected to increasing significantly (+100.0%) over the next 1 days. ''
          @ ''Prepare for a peak of 200 units around Jan 02. ''
          @ ''Consider increasing buffer stock in regional warehouses.'')"
  by code_simp

text \<open>
  C4. For a decreasing trend the narrative should cite the trough date. With a history
  averaging 100 and the forecast 50 on 2 January, 10 on 3 January, the trend is
  decreasing and the trough is 3 January, yet the narrative cites 2 January, the date
  of the maximum (\<open>idxmax\<close>).
\<close>

theorem generate_insight_decreasing_cites_peak:
  "generate_insight \<lparr>s_index = [0], s_values = [100], s_freq = Some ''D''\<rparr>
     [\<lparr>fc_index = 1, fc_mean = 50, fc_lower = 40, fc_upper = 60\<rparr>,
      \<lparr>fc_index = 2, fc_mean = 10, fc_lower = 0, fc_upper = 20\<rparr>] ''Demand''
   = Inr (''Demand is projected to decreasing significantly (-70.0%) over the next 2 days. ''
          @ ''Expect lower activity levels, bottoming out around Jan 02. ''
          @ ''Opportunity to schedule vehicle maintenance or reduce labor shifts.'')
   \<and> strftime_b_d (fc_index (spec_trough_row
         \<lparr>fc_index = 1, fc_mean = 50, fc_lower = 40, fc_upper = 60\<rparr>
         [\<lparr>fc_index = 2, fc_mean = 10, fc_lower = 0, fc_upper = 20\<rparr>])) = ''Jan 03''"
  by code_simp

text \<open>
  C6, as the claim states it: the failure of \<open>forecast\<close> on an untrained model would be
  a distinct \<open>NotTrainedError\<close>. On a fresh model the exception is the built-in
  \<open>ValueError\<close>.
\<close>

theorem forecast_untrained_raises_ValueError:
  "forecast (ArimaModel_init (5, 1, 0)) 30 = Inl (Exn ''ValueError'' ''Model not trained yet.'')
   \<and> exn_class (Exn ''ValueError'' ''Model not trained yet.'') \<noteq> ''NotTrainedError''"
  by (simp add: forecast_def ArimaModel_init_def ValueError_def)

text \<open>
  C6, amended: \<open>forecast\<close> on a model whose \<open>model_fit\<close> is unset raises
  \<open>ValueError('Model not trained yet.')\<close>; on a fitted model it fails exactly when the
  fitted model's own \<open>get_forecast\<close> raises, with that exception.
\<close>

theorem forecast_failure_cases:
  "(am_model_fit self = None \<longrightarrow> forecast self steps = Inl (ValueError ''Model not trained yet.''))
   \<and> (\<forall>f. am_model_fit self = Some f \<longrightarrow>
          (\<forall>e. forecast self steps = Inl e \<longleftrightarrow> get_forecast f steps = Inl e))"
  by (auto simp: forecast_def split: sum.splits)

theorem forecast_failure_cases_witness:
  "forecast \<lparr>am_order = (5, 1, 0), am_model = None, am_model_fit = None\<rparr> 7
     = Inl (ValueError ''Model not trained yet.'')
   \<and> (forecast \<lparr>am_order = (5, 1, 0), am_model = None,
                 am_model_fit = Some \<lparr>get_forecast = (\<lambda>n. Inl (ValueError ''steps'')), aic = 0\<rparr>\<rparr> 7
        = Inl (ValueError ''steps''))"
  using forecast_failure_cases
          [of "\<lparr>am_order = (5, 1, 0), am_model = None, am_model_fit = None\<rparr>" 7]
        forecast_failure_cases
          [of "\<lparr>am_order = (5, 1, 0), am_model = None,
                am_model_fit = Some \<lparr>get_forecast = (\<lambda>n. Inl (ValueError ''steps'')), aic = 0\<rparr>\<rparr>" 7]
  by simp



text \<open>
  C7. Once the series is prepared (lines 18 and 19, before the \<open>try\<close>), \<open>train\<close> always
  returns a flag: it tries the primary order; if that attempt raises, it tries the
  order (1,1,0) once; if that raises too, it returns \<open>False\<close> with \<open>model_fit\<close> unset.
  No exception of either attempt leaves \<open>train\<close>.
\<close>

theorem train_catches_fitting_failures:
  assumes "prepared lib series0 = Inr ser"
  shows "\<exists>r. train lib self series0 = Inr r \<and>
           (case fit_with lib ser (am_order self) of
              Inr f \<Rightarrow> tr_ok r \<and> tr_attempts r = [am_order self]
                        \<and> am_model_fit (tr_self r) = Some f
            | Inl e \<Rightarrow>
                tr_attempts r = [am_order self, (1, 1, 0)] \<and>
                (case fit_with lib ser (1, 1, 0) of
                   Inr f \<Rightarrow> tr_ok r \<and> am_model_fit (tr_self r) = Some f
                 | Inl e' \<Rightarrow> \<not> tr_ok r \<and> am_model_fit (tr_self r) = None))"
  using assms
  by (auto simp: train_def prepared_def train_fallback_def fit_with_def
           split: sum.splits if_splits)

theorem train_catches_fitting_failures_witness:
  "\<exists>r. train \<lparr>asfreq_D_fillna0 = Inr,
               ARIMA = (\<lambda>s ord. Inr \<lparr>endog = s, arima_order = ord\<rparr>),
               fit = (\<lambda>m. Inl (Exn ''LinAlgError'' ''Schur decomposition solver error.''))\<rparr>
             \<lparr>am_order = (5, 1, 0), am_model = None, am_model_fit = None\<rparr>
             \<lparr>s_index = [0, 1], s_values = [3, 4], s_freq = Some ''D''\<rparr> = Inr r
       \<and> \<not> tr_ok r \<and> tr_attempts r = [(5, 1, 0), (1, 1, 0)]
       \<and> am_model_fit (tr_self r) = None"
  using train_catches_fitting_failures
    [of "\<lparr>asfreq_D_fillna0 = Inr,
          ARIMA = (\<lambda>s ord. Inr \<lparr>endog = s, arima_order = ord\<rparr>),
          fit = (\<lambda>m. Inl (Exn ''LinAlgError'' ''Schur decomposition solver error.''))\<rparr>"
        "\<lparr>s_index = [0, 1], s_values = [3, 4], s_freq = Some ''D''\<rparr>"
        "\<lparr>s_index = [0, 1], s_values = [3, 4], s_freq = Some ''D''\<rparr>"
        "\<lparr>am_order = (5, 1, 0), am_model = None, am_model_fit = None\<rparr>"]
  by (auto simp: prepared_def fit_with_def)

section \<open>Properties of the reliability dashboard\<close>





section \<open>Properties of the history augmentation\<close>

lemma synth_row_date:
  "synth_row R df vs os ds i j date g = (row, g') \<Longrightarrow> deliveryDate row = date"
  by (auto simp: synth_row_def split: prod.splits)

lemma day_rows_dates:
  "day_rows R df vs os ds i date k j g = (rows, g') \<Longrightarrow> map deliveryDate rows = replicate k date"
proof (induction k arbitrary: j g rows g')
  case 0
  then show ?case by simp
next
  case (Suc k)
  then show ?case
    by (auto split: prod.splits dest: synth_row_date)
qed

lemma synth_days_dates:
  "synth_days R df vs os ds vol k i date g = (rows, g') \<Longrightarrow>
   set (map deliveryDate rows) = (\<lambda>m. date - day_seconds * int m) ` {1..k}"
proof (induction k arbitrary: i date g rows g')
  case 0
  then show ?case by simp
next
  case (Suc k)
  obtain x g1 where n: "rng_normal R vol (vol * (2 / 10)) g = (x, g1)"
    by (cases "rng_normal R vol (vol * (2 / 10)) g")
  let ?n = "nat (max 1 (py_int x))"
  obtain rows1 g2 where d: "day_rows R df vs os ds i (date - day_seconds) ?n 0 g1 = (rows1, g2)"
    by (cases "day_rows R df vs os ds i (date - day_seconds) ?n 0 g1")
  obtain rest g3 where r: "synth_days R df vs os ds vol k (Suc i) (date - day_seconds) g2 = (rest, g3)"
    by (cases "synth_days R df vs os ds vol k (Suc i) (date - day_seconds) g2")
  have rows: "rows = rows1 @ rest"
    using Suc.prems n d r by (simp add: Let_def)
  have "0 < ?n" by simp
  then have s1: "set (map deliveryDate rows1) = {date - day_seconds}"
    using day_rows_dates [OF d] by (metis set_replicate less_numeral_extra(3))
  have s2: "set (map deliveryDate rest) = (\<lambda>m. date - day_seconds - day_seconds * int m) ` {1..k}"
    using Suc.IH [OF r] .
  have idx: "{1..Suc k} = insert 1 (Suc ` {1..k})"
    by (auto simp: image_iff)
  have "(\<lambda>m. date - day_seconds * int m) ` {1..Suc k}
        = (\<lambda>m. date - day_seconds * int m) ` insert 1 (Suc ` {1..k})"
    by (simp only: idx)
  also have "\<dots> = insert (date - day_seconds * int 1)
                      ((\<lambda>m. date - day_seconds * int (Suc m)) ` {1..k})"
    by (simp only: image_insert image_image)
  also have "\<dots> = insert (date - day_seconds)
                      ((\<lambda>m. date - day_seconds - day_seconds * int m) ` {1..k})"
    by (simp add: algebra_simps)
  finally have "(\<lambda>m. date - day_seconds * int m) ` {1..Suc k}
        = insert (date - day_seconds) ((\<lambda>m. date - day_seconds - day_seconds * int m) ` {1..k})" .
  then show ?case
    using s1 s2 rows by auto
qed

lemma synth_days_bounds:
  assumes "synth_days R df vs os ds vol k i date g = (rows, g')" and "0 < k"
  shows "date - day_seconds * int k \<in> set (map deliveryDate rows)"
    and "\<forall>d \<in> set (map deliveryDate rows). date - day_seconds * int k \<le> d \<and> d < date"
proof -
  have eq: "set (map deliveryDate rows) = (\<lambda>m. date - day_seconds * int m) ` {1..k}"
    using synth_days_dates [OF assms(1)] .
  show "date - day_seconds * int k \<in> set (map deliveryDate rows)"
    unfolding eq using assms(2) by auto
  show "\<forall>d \<in> set (map deliveryDate rows). date - day_seconds * int k \<le> d \<and> d < date"
    unfolding eq by (auto simp: day_seconds_def)
qed

lemma generate_sufficient:
  assumes "df \<noteq> []" and "target_days \<le> span_days df"
  shows "generate_historical_data R df target_days g = (df, g)"
  using assms by (simp add: generate_historical_data_def span_days_def Let_def)

lemma generate_augmenting:
  assumes "df \<noteq> []" and "span_days df < target_days"
  shows "\<exists>new_rows g'.
           synth_days R df (unique (map vehicleId df)) (unique (map originId df))
             (unique (map destinationId df))
             (of_nat (length df) / of_nat (length (remdups (map (\<lambda>r. date_of (deliveryDate r)) df))))
             (nat (target_days - span_days df)) 0 (Min (set (map deliveryDate df))) g = (new_rows, g')
         \<and> generate_historical_data R df target_days g
             = (sort_key deliveryDate (new_rows @ df), g')"
  using assms
  by (auto simp: generate_historical_data_def span_days_def Let_def split: prod.splits)

lemma span_after_augmenting:
  assumes "df \<noteq> []" and "0 < k"
    and "synth_days R df vs os ds vol k i (Min (set (map deliveryDate df))) g = (new_rows, g')"
  shows "span_days (sort_key deliveryDate (new_rows @ df)) = span_days df + int k"
proof -
  let ?e = "Min (set (map deliveryDate df))"
  let ?l = "Max (set (map deliveryDate df))"
  let ?A = "set (map deliveryDate (sort_key deliveryDate (new_rows @ df)))"
  have A: "?A = set (map deliveryDate new_rows) \<union> set (map deliveryDate df)"
    by auto
  have ne: "set (map deliveryDate df) \<noteq> {}"
    using assms(1) by simp
  have e_le: "\<forall>d \<in> set (map deliveryDate df). ?e \<le> d"
    by simp
  have l_ge: "\<forall>d \<in> set (map deliveryDate df). d \<le> ?l"
    by simp
  have e_in: "?e \<in> set (map deliveryDate df)"
    using ne by (meson Min_in List.finite_set)
  have l_in: "?l \<in> set (map deliveryDate df)"
    using ne by (meson Max_in List.finite_set)
  note b = synth_days_bounds [OF assms(3) assms(2)]
  have "Min ?A = ?e - day_seconds * int k"
  proof (rule Min_eqI)
    show "finite ?A" by simp
    show "?e - day_seconds * int k \<in> ?A"
      unfolding A using b(1) by blast
    fix y assume "y \<in> ?A"
    then consider "y \<in> set (map deliveryDate new_rows)" | "y \<in> set (map deliveryDate df)"
      unfolding A by blast
    then show "?e - day_seconds * int k \<le> y"
    proof cases
      case 1
      then show ?thesis using b(2) by blast
    next
      case 2
      then have "?e \<le> y" using e_le by blast
      then show ?thesis by (simp add: day_seconds_def)
    qed
  qed
  moreover have "Max ?A = ?l"
  proof (rule Max_eqI)
    show "finite ?A" by simp
    show "?l \<in> ?A"
      unfolding A using l_in by blast
    fix y assume "y \<in> ?A"
    then consider "y \<in> set (map deliveryDate new_rows)" | "y \<in> set (map deliveryDate df)"
      unfolding A by blast
    then show "y \<le> ?l"
    proof cases
      case 1
      then have "y < ?e" using b(2) by blast
      moreover have "?e \<le> ?l" using e_in l_ge by blast
      ultimately show ?thesis by simp
    next
      case 2
      then show ?thesis using l_ge by blast
    qed
  qed
  ultimately show ?thesis
    by (simp add: span_days_def timedelta_days_def day_seconds_def)
qed

lemma span_generate:
  assumes "df \<noteq> []"
  shows "span_days (fst (generate_historical_data R df target_days g)) = max (span_days df) target_days"
proof (cases "target_days \<le> span_days df")
  case True
  then show ?thesis
    by (simp add: generate_sufficient [OF assms True])
next
  case False
  then have lt: "span_days df < target_days" by simp
  then have k: "0 < nat (target_days - span_days df)" by simp
  from generate_augmenting [OF assms lt, of R g] obtain new_rows g' where
    s: "synth_days R df (unique (map vehicleId df)) (unique (map originId df))
             (unique (map destinationId df))
             (of_nat (length df) / of_nat (length (remdups (map (\<lambda>r. date_of (deliveryDate r)) df))))
             (nat (target_days - span_days df)) 0 (Min (set (map deliveryDate df))) g = (new_rows, g')"
    and gen: "generate_historical_data R df target_days g
             = (sort_key deliveryDate (new_rows @ df), g')"
    by blast
  show ?thesis
    using span_after_augmenting [OF assms k s] gen lt by simp
qed

lemma generate_nonempty:
  assumes "df \<noteq> []"
  shows "fst (generate_historical_data R df target_days g) \<noteq> []"
proof (cases "target_days \<le> span_days df")
  case True
  then show ?thesis using assms by (simp add: generate_sufficient [OF assms True])
next
  case False
  then have lt: "span_days df < target_days" by simp
  from generate_augmenting [OF assms lt, of R g] obtain new_rows g' where
    gen: "generate_historical_data R df target_days g
             = (sort_key deliveryDate (new_rows @ df), g')"
    by blast
  have "sort_key deliveryDate (new_rows @ df) \<noteq> []"
    using assms by (metis append_is_Nil_conv length_0_conv length_sort)
  then show ?thesis by (simp add: gen)
qed

lemma generate_idempotent:
  "fst (generate_historical_data R (fst (generate_historical_data R df target_days g)) target_days g')
   = fst (generate_historical_data R df target_days g)"
proof (cases "df = []")
  case True
  then show ?thesis by (simp add: generate_historical_data_def)
next
  case False
  let ?out = "fst (generate_historical_data R df target_days g)"
  have ne: "?out \<noteq> []" using generate_nonempty [OF False] .
  have "target_days \<le> span_days ?out"
    using span_generate [OF False, of R target_days g] by simp
  then show ?thesis by (simp add: generate_sufficient [OF ne])
qed

lemma generate_mset:
  "mset df \<subseteq># mset (fst (generate_historical_data R df target_days g))"
proof (cases "df \<noteq> [] \<and> span_days df < target_days")
  case True
  from generate_augmenting [of df target_days R g] True obtain new_rows g' where
    gen: "generate_historical_data R df target_days g
             = (sort_key deliveryDate (new_rows @ df), g')"
    by blast
  show ?thesis unfolding gen by simp
next
  case False
  have "fst (generate_historical_data R df target_days g) = df"
  proof (cases "df = []")
    case True
    then show ?thesis by (simp add: generate_historical_data_def)
  next
    case ne: False
    with False have "target_days \<le> span_days df" by simp
    then show ?thesis by (simp add: generate_sufficient [OF ne])
  qed
  then show ?thesis by simp
qed

lemma generate_sorted_when_merged:
  assumes "df \<noteq> []" and "span_days df < target_days"
  shows "sorted (map deliveryDate (fst (generate_historical_data R df target_days g)))"
proof -
  from generate_augmenting [OF assms, of R g] obtain new_rows g' where
    gen: "generate_historical_data R df target_days g
             = (sort_key deliveryDate (new_rows @ df), g')"
    by blast
  show ?thesis unfolding gen by simp
qed

lemma generate_dates_when_augmenting:
  assumes "df \<noteq> []" and "span_days df < target_days"
  shows "set (map deliveryDate (fst (generate_historical_data R df target_days g)))
         = set (map deliveryDate df)
           \<union> (\<lambda>m. Min (set (map deliveryDate df)) - day_seconds * int m)
               ` {1..nat (target_days - span_days df)}"
proof -
  from generate_augmenting [OF assms, of R g] obtain new_rows g' where
    s: "synth_days R df (unique (map vehicleId df)) (unique (map originId df))
             (unique (map destinationId df))
             (of_nat (length df) / of_nat (length (remdups (map (\<lambda>r. date_of (deliveryDate r)) df))))
             (nat (target_days - span_days df)) 0 (Min (set (map deliveryDate df))) g = (new_rows, g')"
    and gen: "generate_historical_data R df target_days g
             = (sort_key deliveryDate (new_rows @ df), g')"
    by blast
  have "set (map deliveryDate (sort_key deliveryDate (new_rows @ df)))
        = set (map deliveryDate df) \<union> set (map deliveryDate new_rows)"
    by auto
  then show ?thesis
    unfolding gen using synth_days_dates [OF s] by simp
qed

text \<open>
  C8. When the span of a non-empty record collection is at least \<open>target_days\<close>, the
  augmentation returns the records as they are (and draws nothing from the generator).
  Augmenting twice gives what augmenting once gives, for every input.
\<close>

theorem augment_noop_when_sufficient:
  "(records \<noteq> [] \<and> target_days \<le> span_days records \<longrightarrow>
      generate_historical_data R records target_days g = (records, g))
   \<and> fst (generate_historical_data R
             (fst (generate_historical_data R records target_days g)) target_days g')
       = fst (generate_historical_data R records target_days g)"
proof (intro conjI impI)
  show "generate_historical_data R records target_days g = (records, g)"
    if "records \<noteq> [] \<and> target_days \<le> span_days records"
    using that by (simp add: generate_sufficient)
  show "fst (generate_historical_data R
             (fst (generate_historical_data R records target_days g)) target_days g')
       = fst (generate_historical_data R records target_days g)"
    by (rule generate_idempotent)
qed

theorem augment_noop_when_sufficient_witness:
  "generate_historical_data sample_rng [sample_delivery_a, sample_delivery_b] 1 0
     = ([sample_delivery_a, sample_delivery_b], 0)
   \<and> span_days [sample_delivery_a, sample_delivery_b] = 1"
proof -
  have sp: "span_days [sample_delivery_a, sample_delivery_b] = 1"
    by code_simp
  have h: "[sample_delivery_a, sample_delivery_b] \<noteq> []
        \<and> 1 \<le> span_days [sample_delivery_a, sample_delivery_b]"
    by (simp add: sp)
  have "generate_historical_data sample_rng [sample_delivery_a, sample_delivery_b] 1 0
     = ([sample_delivery_a, sample_delivery_b], 0)"
    using augment_noop_when_sufficient
            [of "[sample_delivery_a, sample_delivery_b]" 1 sample_rng 0 0, THEN conjunct1] h
    by (rule mp)
  then show ?thesis
    using sp by (rule conjI)
qed

text \<open>
  C9. For a non-empty record collection the span of the augmented collection is the
  larger of the input's span and \<open>target_days\<close>, hence at least \<open>target_days\<close>; it
  equals \<open>target_days\<close> exactly when the input's span did not exceed it, and then the
  dates added are one for each of the \<open>target_days - span\<close> days before the earliest
  record.
\<close>

theorem augment_span_coverage:
  assumes "records \<noteq> []"
  shows "target_days \<le> span_days (fst (generate_historical_data R records target_days g))
    \<and> span_days (fst (generate_historical_data R records target_days g))
        = max (span_days records) target_days
    \<and> (span_days (fst (generate_historical_data R records target_days g)) = target_days
         \<longleftrightarrow> span_days records \<le> target_days)
    \<and> (span_days records < target_days \<longrightarrow>
         set (map deliveryDate (fst (generate_historical_data R records target_days g)))
         = set (map deliveryDate records)
           \<union> (\<lambda>m. Min (set (map deliveryDate records)) - day_seconds * int m)
               ` {1..nat (target_days - span_days records)})"
proof -
  let ?out = "fst (generate_historical_data R records target_days g)"
  have m: "span_days ?out = max (span_days records) target_days"
    by (rule span_generate [OF assms])
  have c1: "target_days \<le> span_days ?out"
    unfolding m by simp
  have c3: "span_days ?out = target_days \<longleftrightarrow> span_days records \<le> target_days"
    unfolding m by linarith
  have c4: "span_days records < target_days \<longrightarrow>
         set (map deliveryDate ?out)
         = set (map deliveryDate records)
           \<union> (\<lambda>m. Min (set (map deliveryDate records)) - day_seconds * int m)
               ` {1..nat (target_days - span_days records)}"
    using generate_dates_when_augmenting [OF assms] by (intro impI)
  from c1 m c3 c4 show ?thesis
    by (intro conjI)
qed

theorem augment_span_coverage_witness:
  "span_days [sample_delivery_a, sample_delivery_b] = 1
   \<and> span_days (fst (generate_historical_data sample_rng
                       [sample_delivery_a, sample_delivery_b] 365 0)) = 365"
proof -
  have sp: "span_days [sample_delivery_a, sample_delivery_b] = 1"
    by code_simp
  have ne: "[sample_delivery_a, sample_delivery_b] \<noteq> []"
    by simp
  have "span_days (fst (generate_historical_data sample_rng
            [sample_delivery_a, sample_delivery_b] 365 0))
        = max (span_days [sample_delivery_a, sample_delivery_b]) 365"
    using augment_span_coverage [OF ne, of 365 sample_rng 0] by (elim conjE)
  also have "\<dots> = 365"
    unfolding sp by simp
  finally show ?thesis
    using sp by simp
qed

text \<open>
  C10. Every original record is in the output, unchanged and as often as in the input.
  Whenever synthetic rows are merged in, the output is sorted ascending by date; an
  input that is sorted by date (as the record store supplies it) gives a sorted output
  in every case.
\<close>

theorem augment_preserves_and_sorts:
  "mset records \<subseteq># mset (fst (generate_historical_data R records target_days g))
   \<and> (records \<noteq> [] \<and> span_days records < target_days \<longrightarrow>
        sorted (map deliveryDate (fst (generate_historical_data R records target_days g))))
   \<and> (sorted (map deliveryDate records) \<longrightarrow>
        sorted (map deliveryDate (fst (generate_historical_data R records target_days g))))"
proof (intro conjI impI)
  show "mset records \<subseteq># mset (fst (generate_historical_data R records target_days g))"
    by (rule generate_mset)
  show "sorted (map deliveryDate (fst (generate_historical_data R records target_days g)))"
    if "records \<noteq> [] \<and> span_days records < target_days"
    using that by (simp add: generate_sorted_when_merged)
  show "sorted (map deliveryDate (fst (generate_historical_data R records target_days g)))"
    if s: "sorted (map deliveryDate records)"
  proof (cases "records \<noteq> [] \<and> span_days records < target_days")
    case True
    then show ?thesis by (simp add: generate_sorted_when_merged)
  next
    case False
    have "fst (generate_historical_data R records target_days g) = records"
    proof (cases "records = []")
      case True
      then show ?thesis by (simp add: generate_historical_data_def)
    next
      case ne: False
      with False have "target_days \<le> span_days records" by simp
      then show ?thesis by (simp add: generate_sufficient [OF ne])
    qed
    then show ?thesis using s by simp
  qed
qed

theorem augment_preserves_and_sorts_witness:
  "span_days [sample_delivery_b, sample_delivery_a] < 3
   \<and> \<not> sorted (map deliveryDate [sample_delivery_b, sample_delivery_a])
   \<and> sorted (map deliveryDate (fst (generate_historical_data sample_rng
                [sample_delivery_b, sample_delivery_a] 3 0)))
   \<and> sorted (map deliveryDate [sample_delivery_a, sample_delivery_b])
   \<and> sorted (map deliveryDate (fst (generate_historical_data sample_rng
                [sample_delivery_a, sample_delivery_b] 1 0)))"
proof -
  have sp: "span_days [sample_delivery_b, sample_delivery_a] = 1"
    by code_simp
  have ns: "\<not> sorted (map deliveryDate [sample_delivery_b, sample_delivery_a])"
    by (simp add: sample_delivery_a_def sample_delivery_b_def)
  have so: "sorted (map deliveryDate [sample_delivery_a, sample_delivery_b])"
    by (simp add: sample_delivery_a_def sample_delivery_b_def)
  have h: "[sample_delivery_b, sample_delivery_a] \<noteq> []
           \<and> span_days [sample_delivery_b, sample_delivery_a] < 3"
    by (simp add: sp)
  have c1: "sorted (map deliveryDate (fst (generate_historical_data sample_rng
                [sample_delivery_b, sample_delivery_a] 3 0)))"
    using augment_preserves_and_sorts
            [of "[sample_delivery_b, sample_delivery_a]" sample_rng 3 0,
             THEN conjunct2, THEN conjunct1] h
    by (rule mp)
  have c2: "sorted (map deliveryDate (fst (generate_historical_data sample_rng
                [sample_delivery_a, sample_delivery_b] 1 0)))"
    using augment_preserves_and_sorts
            [of "[sample_delivery_a, sample_delivery_b]" sample_rng 1 0,
             THEN conjunct2, THEN conjunct2] so
    by (rule mp)
  have "span_days [sample_delivery_b, sample_delivery_a] < 3"
    by (simp add: sp)
  then show ?thesis
    using ns c1 so c2 by (intro conjI)
qed

section \<open>Properties of the service\<close>

lemma prepare_arima_data_freq: "s_freq (prepare_arima_data df column) = Some ''D''"
  by (simp add: prepare_arima_data_def Let_def)

lemma train_prepared_series:
  "\<exists>r. train lib self (prepare_arima_data df column) = Inr r
       \<and> (tr_ok r \<longrightarrow> am_model_fit (tr_self r) \<noteq> None)"
  by (auto simp: train_def prepare_arima_data_freq train_fallback_def split: sum.splits)

lemma train_forecaster_cases:
  "train_forecaster lib full_df column key history_key st = st
   \<or> (\<exists>m ser. train_forecaster lib full_df column key history_key st
         = st\<lparr>models := dict_set history_key (VSeries ser) (dict_set key (VArima m) (models st))\<rparr>)"
  by (auto simp: train_forecaster_def Let_def split: sum.splits)

lemma train_reliability_cases:
  "train_reliability lib full_df st = st
   \<or> (\<exists>rf acc. train_reliability lib full_df st
         = st\<lparr>models := dict_set ''reliability'' (VReliability rf) (models st), rf_accuracy := acc\<rparr>)"
  by (auto simp: train_reliability_def rf_train_def split: sum.splits prod.splits)

lemma lifespan_registry_cases:
  "\<exists>d s r. (d = VNone \<or> (\<exists>m. d = VArima m)) \<and> (s = VNone \<or> (\<exists>m. s = VArima m))
      \<and> (r = VNone \<or> (\<exists>m. r = VReliability m))
      \<and> (\<exists>hd hs. models (lifespan env)
            = [(''demand'', d), (''spend'', s), (''reliability'', r)]
              @ (if d = VNone then [] else [(''demand_history'', VSeries hd)])
              @ (if s = VNone then [] else [(''spend_history'', VSeries hs)]))"
proof (cases "env_fetch env")
  case (Inl e)
  then show ?thesis by (simp add: lifespan_def initial_state_def)
next
  case (Inr df)
  let ?full = "fst (generate_historical_data (env_rng env) df 365 (env_seed env))"
  show ?thesis
  proof (cases "?full = []")
    case True
    then show ?thesis using Inr by (simp add: lifespan_def initial_state_def Let_def)
  next
    case False
    let ?st2 = "initial_state\<lparr>total_records := length ?full,
                  latest_date := Some (Max (set (map deliveryDate ?full)))\<rparr>"
    let ?st3 = "train_forecaster (env_arima env) ?full (\<lambda>r. of_int (demand r))
                  ''demand'' ''demand_history'' ?st2"
    let ?st4 = "train_forecaster (env_arima env) ?full totalCost ''spend'' ''spend_history'' ?st3"
    have L: "lifespan env = train_reliability (env_rf env) ?full ?st4"
      using Inr False by (simp add: lifespan_def Let_def)
    have m2: "models ?st2 = [(''demand'', VNone), (''spend'', VNone), (''reliability'', VNone)]"
      by (simp add: initial_state_def)
    from train_forecaster_cases [of "env_arima env" ?full "\<lambda>r. of_int (demand r)" "''demand''" "''demand_history''" ?st2]
    have m3: "\<exists>d hd. (d = VNone \<or> (\<exists>m. d = VArima m)) \<and> models ?st3
          = [(''demand'', d), (''spend'', VNone), (''reliability'', VNone)]
              @ (if d = VNone then [] else [(''demand_history'', VSeries hd)])"
      using m2 by (elim disjE exE) (auto simp: m2)
    then obtain d hd where d: "d = VNone \<or> (\<exists>m. d = VArima m)"
      and m3': "models ?st3 = [(''demand'', d), (''spend'', VNone), (''reliability'', VNone)]
              @ (if d = VNone then [] else [(''demand_history'', VSeries hd)])"
      by blast
    from train_forecaster_cases [of "env_arima env" ?full totalCost "''spend''" "''spend_history''" ?st3]
    have m4: "\<exists>s hs. (s = VNone \<or> (\<exists>m. s = VArima m)) \<and> models ?st4
          = [(''demand'', d), (''spend'', s), (''reliability'', VNone)]
              @ (if d = VNone then [] else [(''demand_history'', VSeries hd)])
              @ (if s = VNone then [] else [(''spend_history'', VSeries hs)])"
      using m3' by (elim disjE exE) (auto simp: m3')
    then obtain s hs where s: "s = VNone \<or> (\<exists>m. s = VArima m)"
      and m4': "models ?st4 = [(''demand'', d), (''spend'', s), (''reliability'', VNone)]
              @ (if d = VNone then [] else [(''demand_history'', VSeries hd)])
              @ (if s = VNone then [] else [(''spend_history'', VSeries hs)])"
      by blast
    from train_reliability_cases [of "env_rf env" ?full ?st4]
    have "\<exists>r. (r = VNone \<or> (\<exists>m. r = VReliability m)) \<and> models (lifespan env)
          = [(''demand'', d), (''spend'', s), (''reliability'', r)]
              @ (if d = VNone then [] else [(''demand_history'', VSeries hd)])
              @ (if s = VNone then [] else [(''spend_history'', VSeries hs)])"
      unfolding L using m4' by (elim disjE exE) (auto simp: m4')
    then show ?thesis using d s by blast
  qed
qed

lemma health_check_lifespan:
  "health_check (lifespan env)
   = (if trained (lifespan env) ''demand'' \<and> trained (lifespan env) ''spend''
          \<and> trained (lifespan env) ''reliability''
      then Inl (ValueError ''The truth value of a Series is ambiguous. Use a.empty, a.bool(), a.item(), a.any() or a.all().'')
      else Inr \<lparr>h_status = ''ok'', h_models_loaded = False,
                h_details = map (\<lambda>(k, v). (k, is_not_None v)) (models (lifespan env))\<rparr>)"
proof -
  from lifespan_registry_cases [of env] obtain d s r hd hs where
    d: "d = VNone \<or> (\<exists>m. d = VArima m)" and s: "s = VNone \<or> (\<exists>m. s = VArima m)"
    and r: "r = VNone \<or> (\<exists>m. r = VReliability m)"
    and m: "models (lifespan env)
            = [(''demand'', d), (''spend'', s), (''reliability'', r)]
              @ (if d = VNone then [] else [(''demand_history'', VSeries hd)])
              @ (if s = VNone then [] else [(''spend_history'', VSeries hs)])"
    by blast
  from d s r show ?thesis
    by (elim disjE exE) (simp_all add: health_check_def trained_def m)
qed

text \<open>
  C5. The health endpoint should return the flags in every state the startup can leave.
  After a startup in which the fetch succeeds and both forecasters and the reliability
  model train, the registry also holds the two history Series, \<open>all(models.values())\<close>
  reaches \<open>demand_history\<close> and the truth value of the Series raises.
\<close>

theorem health_check_raises_after_training:
  "health_check (lifespan sample_env)
   = Inl (Exn ''ValueError'' ''The truth value of a Series is ambiguous. Use a.empty, a.bool(), a.item(), a.any() or a.all().'')"
proof -
  let ?full = "fst (generate_historical_data sample_rng [sample_delivery_a, sample_delivery_b] 365 0)"
  have ne: "?full \<noteq> []"
    by (rule generate_nonempty) simp
  have tr: "train sample_arima_lib (ArimaModel_init (5, 1, 0)) (prepare_arima_data df c)
            = Inr \<lparr>tr_ok = True,
                   tr_self = \<lparr>am_order = (5, 1, 0),
                              am_model = Some \<lparr>endog = prepare_arima_data df c, arima_order = (5, 1, 0)\<rparr>,
                              am_model_fit = Some \<lparr>get_forecast = (\<lambda>steps. Inr (map (\<lambda>i.
                                  \<lparr>sf_index = 12 + int i, sf_mean = 5, sf_mean_se = 1,
                                   sf_mean_ci_lower = 3, sf_mean_ci_upper = 7\<rparr>) [0..<nat steps])),
                                aic = 100\<rparr>\<rparr>,
                   tr_attempts = [(5, 1, 0)]\<rparr>" for df c
    by (simp add: train_def prepare_arima_data_freq sample_arima_lib_def ArimaModel_init_def)
  show ?thesis
    using ne
    by (simp add: lifespan_def sample_env_def Let_def train_forecaster_def tr
          train_reliability_def rf_train_def sample_rf_lib_def initial_state_def
          health_check_def ValueError_def del: One_nat_def split: prod.splits)
qed

end
